theory Spec2Isabelle
  imports Main "HOL-Library.Word"
begin

unbundle bit_operations_syntax

section \<open>Data model of the decoder\<close>

text \<open>
  The decoder of \<^verbatim>\<open>ESP32_AnimatedGIF.cpp\<close> is embedded function by function.
  \<^verbatim>\<open>uint8_t\<close>, \<^verbatim>\<open>uint16_t\<close> and \<^verbatim>\<open>uint32_t\<close> are words of that width, so every
  assignment to a narrower field truncates as the C conversion does.
\<close>

type_synonym byte = "8 word"
type_synonym u16 = "16 word"
type_synonym u32 = "32 word"

datatype GIFError =
    SUCCESS | DECODE_ERROR | FILE_TOO_WIDE | INVALID_PARAMETER | UNSUPPORTED_FEATURE
  | FILE_NOT_FOUND | EARLY_EOF | EMPTY_FRAME | BAD_FILE_FORMAT | OUT_OF_MEMORY
  | DISPLAY_NOT_SET | UNKNOWN_ERROR

datatype PixelFormat =
    RGB565_LE | RGB565_BE | RGB888 | ARGB8888 | GRAYSCALE_8BIT | MONOCHROME_1BIT

text \<open>
  What C leaves undefined, and a loop that does not end, are results of the model too:
  every function that can meet one returns \<open>fault + 'a\<close>, with \<open>Inl\<close> the fault. Loops
  whose cursor arithmetic wraps at 32 bits take fuel, one unit per iteration.
\<close>

datatype fault = OutOfFuel | DivisionByZero | OutOfBounds

fun thenF :: "fault + 'a \<Rightarrow> ('a \<Rightarrow> fault + 'b) \<Rightarrow> fault + 'b" where
  "thenF (Inl e) f = Inl e"
| "thenF (Inr x) f = f x"

fun foldF :: "('a \<Rightarrow> 's \<Rightarrow> fault + 's) \<Rightarrow> 'a list \<Rightarrow> 's \<Rightarrow> fault + 's" where
  "foldF f [] s = Inr s"
| "foldF f (x # xs) s = (case f x s of Inl e \<Rightarrow> Inl e | Inr s' \<Rightarrow> foldF f xs s')"

text \<open>
  \<^verbatim>\<open>typedef bool (*DataReader)(void* userData, uint8_t* buffer, uint32_t length, uint32_t position)\<close>:
  a reader is given the length and the position; \<open>Some bytes\<close> is \<^verbatim>\<open>true\<close> with the buffer
  it filled, \<open>None\<close> is \<^verbatim>\<open>false\<close>.
\<close>

type_synonym DataReader = "u32 \<Rightarrow> u32 \<Rightarrow> byte list option"

text \<open>
  The private state of \<^verbatim>\<open>class ESP32_AnimatedGIF::Impl\<close>. A pointer to a buffer is the
  buffer's bytes, \<open>None\<close> for \<^verbatim>\<open>nullptr\<close>. The color tables are kept as the bytes that
  \<^verbatim>\<open>readData\<close> stored in them. \<open>pixelCallback\<close> tells whether a pixel callback is
  registered and \<open>pixelLog\<close> records its calls; \<open>waited\<close> sums the arguments of
  \<^verbatim>\<open>delay\<close>. The outcome of the platform allocator is not decided by this code:
  \<open>allocOk s k n\<close> says whether the \<open>k\<close>-th request, for \<open>n\<close> bytes, succeeds, and
  \<open>allocCount\<close> counts the requests. Fields that no decoding path reads
  (\<^verbatim>\<open>_scale\<close>, \<^verbatim>\<open>_displayWidth\<close>, \<^verbatim>\<open>_displayHeight\<close>, \<^verbatim>\<open>_usePSRAM\<close>, \<^verbatim>\<open>_decoding\<close>,
  \<^verbatim>\<open>_frameCallback\<close> and the callbacks' user data) are left out.
\<close>

record Impl =
  data :: "byte list option"
  dataLength :: u32
  dataPosition :: u32
  reader :: "DataReader option"
  pixelCallback :: bool
  pixelLog :: "(u16 \<times> u16 \<times> u16) list"
  currentFrame :: u16
  totalFrames :: u16
  loopCount :: u16
  loop :: bool
  pixelFormat :: PixelFormat
  lastError :: GIFError
  canvasWidth :: u16
  canvasHeight :: u16
  frameX :: u16
  frameY :: u16
  frameWidth :: u16
  frameHeight :: u16
  frameDelay :: u16
  disposalMethod :: byte
  imageFlags :: byte
  hasTransparency :: bool
  transparentIndex :: byte
  backgroundColor :: byte
  globalColorTable :: "byte list option"
  localColorTable :: "byte list option"
  globalColorTableSize :: u16
  localColorTableSize :: u16
  frameBuffer :: "byte list option"
  previousFrame :: "byte list option"
  totalDuration :: u32
  allocOk :: "nat \<Rightarrow> nat \<Rightarrow> bool"
  allocCount :: nat
  waited :: nat

text \<open>The configuration macros of the header file, at their defaults.\<close>

definition ESP32_ANIMATEDGIF_MAX_WIDTH :: u16 where
  "ESP32_ANIMATEDGIF_MAX_WIDTH = 800"

definition ESP32_ANIMATEDGIF_MAX_HEIGHT :: u16 where
  "ESP32_ANIMATEDGIF_MAX_HEIGHT = 600"

section \<open>Memory\<close>

text \<open>
  \<^verbatim>\<open>allocateMemory\<close>: \<^verbatim>\<open>nullptr\<close> for size 0, otherwise what the platform gives, zero-filled.
\<close>

definition allocateMemory :: "nat \<Rightarrow> Impl \<Rightarrow> byte list option \<times> Impl" where
  "allocateMemory n s =
     (if n = 0 then (None, s)
      else (if allocOk s (allocCount s) n then Some (replicate n 0) else None,
            s\<lparr>allocCount := Suc (allocCount s)\<rparr>))"

definition resetFrameState :: "Impl \<Rightarrow> Impl" where
  "resetFrameState s =
     s\<lparr>frameX := 0, frameY := 0, frameWidth := 0, frameHeight := 0, frameDelay := 0,
       disposalMethod := 0, imageFlags := 0, hasTransparency := False, transparentIndex := 0\<rparr>"

definition resetState :: "Impl \<Rightarrow> Impl" where
  "resetState s =
     (resetFrameState
        (s\<lparr>canvasWidth := 0, canvasHeight := 0, currentFrame := 0, totalFrames := 0,
           loopCount := 0, totalDuration := 0\<rparr>))
      \<lparr>globalColorTable := None, localColorTable := None,
       globalColorTableSize := 0, localColorTableSize := 0,
       frameBuffer := None, previousFrame := None\<rparr>"

text \<open>\<^verbatim>\<open>cleanup\<close> frees the five buffers and resets the state.\<close>

definition cleanup :: "Impl \<Rightarrow> Impl" where
  "cleanup s =
     resetState (s\<lparr>data := None, globalColorTable := None, localColorTable := None,
                   frameBuffer := None, previousFrame := None\<rparr>)"

text \<open>
  \<^verbatim>\<open>readData\<close>: a registered reader is asked first; otherwise the bytes come from the
  copy of the input, after the bounds test \<^verbatim>\<open>position + length > _dataLength\<close>, which
  is computed in 32 bits. Where that sum wraps and the test passes, \<^verbatim>\<open>memcpy\<close> reads
  outside the buffer.
\<close>

definition readData :: "Impl \<Rightarrow> u32 \<Rightarrow> u32 \<Rightarrow> fault + byte list option" where
  "readData s len pos =
     (case reader s of
        Some rd \<Rightarrow> Inr (rd len pos)
      | None \<Rightarrow>
          (case data s of
             Some d \<Rightarrow>
               if pos + len > dataLength s then Inr None
               else if unat pos + unat len \<le> length d
                 then Inr (Some (take (unat len) (drop (unat pos) d)))
                 else Inl OutOfBounds
           | None \<Rightarrow> Inr None))"

text \<open>A store through a pointer, a load, \<^verbatim>\<open>memcpy\<close> and \<^verbatim>\<open>memset\<close> into a buffer.\<close>

definition poke :: "byte list \<Rightarrow> nat \<Rightarrow> byte \<Rightarrow> fault + byte list" where
  "poke buf i v = (if i < length buf then Inr (buf[i := v]) else Inl OutOfBounds)"

definition peek :: "byte list \<Rightarrow> nat \<Rightarrow> fault + byte" where
  "peek buf i = (if i < length buf then Inr (buf ! i) else Inl OutOfBounds)"

definition memcpyBuf :: "byte list \<Rightarrow> byte list \<Rightarrow> nat \<Rightarrow> fault + byte list" where
  "memcpyBuf dst src n =
     (if n \<le> length dst \<and> n \<le> length src then Inr (take n src @ drop n dst)
      else Inl OutOfBounds)"

definition memsetZero :: "byte list \<Rightarrow> nat \<Rightarrow> fault + byte list" where
  "memsetZero dst n =
     (if n \<le> length dst then Inr (replicate n 0 @ drop n dst) else Inl OutOfBounds)"

section \<open>Pixel conversion utilities\<close>

text \<open>
  \<^verbatim>\<open>return (uint8_t)((r * 77 + g * 150 + b * 29) >> 8);\<close>
  The operands are promoted to \<^verbatim>\<open>int\<close>; the sum is at most \<open>255 * 256\<close>, so 32-bit
  words hold it exactly.
\<close>

definition rgb888ToGrayscale :: "byte \<Rightarrow> byte \<Rightarrow> byte \<Rightarrow> byte" where
  "rgb888ToGrayscale r g b =
     ucast (drop_bit 8 ((ucast r :: u32) * 77 + ucast g * 150 + ucast b * 29))"

text \<open>
  \<^verbatim>\<open>return ((r & 0xF8) << 8) | ((g & 0xFC) << 3) | (b >> 3);\<close>
\<close>

definition rgb888To565 :: "byte \<Rightarrow> byte \<Rightarrow> byte \<Rightarrow> u16" where
  "rgb888To565 r g b =
     push_bit 8 (ucast (r AND 0xF8)) OR push_bit 3 (ucast (g AND 0xFC)) OR ucast (drop_bit 3 b)"

section \<open>Canvas buffers\<close>

text \<open>
  The byte size of a canvas buffer, as the four functions that need it compute it:
  \<^verbatim>\<open>_canvasWidth * _canvasHeight\<close>, times the bytes per pixel of the format. Every use
  is reached only after \<^verbatim>\<open>parseHeader\<close> has bounded the canvas by the configured
  maximum, so the product does not overflow and is taken in \<open>nat\<close>.
\<close>

definition bufferSize :: "Impl \<Rightarrow> nat" where
  "bufferSize s =
     unat (canvasWidth s) * unat (canvasHeight s) *
     (case pixelFormat s of
        RGB565_LE \<Rightarrow> 2 | RGB565_BE \<Rightarrow> 2 | RGB888 \<Rightarrow> 3 | ARGB8888 \<Rightarrow> 4
      | GRAYSCALE_8BIT \<Rightarrow> 1 | MONOCHROME_1BIT \<Rightarrow> 1)"

definition allocateFrameBuffer :: "Impl \<Rightarrow> Impl" where
  "allocateFrameBuffer s =
     (let s0 = s\<lparr>frameBuffer := None, previousFrame := None\<rparr>;
          (fb, s1) = allocateMemory (bufferSize s0) s0;
          (pf, s2) = allocateMemory (bufferSize s0) s1
      in s2\<lparr>frameBuffer := fb, previousFrame := pf\<rparr>)"

definition resetFrameBuffer :: "Impl \<Rightarrow> fault + Impl" where
  "resetFrameBuffer s =
     (case (frameBuffer s, previousFrame s) of
        (Some fb, Some pf) \<Rightarrow>
          thenF (memsetZero fb (bufferSize s)) (\<lambda>fb'.
          thenF (memsetZero pf (bufferSize s)) (\<lambda>pf'.
          Inr (s\<lparr>frameBuffer := Some fb', previousFrame := Some pf'\<rparr>)))
      | _ \<Rightarrow> Inr s)"

text \<open>
  \<^verbatim>\<open>drawPixel\<close>. The arguments arrive as \<^verbatim>\<open>uint16_t\<close>. The offset
  \<^verbatim>\<open>y * _canvasWidth + x\<close> is below the canvas area, so it is taken in \<open>nat\<close>; the
  monochrome branch narrows \<^verbatim>\<open>offset / 8\<close> to \<^verbatim>\<open>uint8_t\<close>, as the source declares it.
\<close>

definition storePixel :: "PixelFormat \<Rightarrow> byte list \<Rightarrow> nat \<Rightarrow> u16 \<Rightarrow> byte \<Rightarrow> byte \<Rightarrow> byte
                            \<Rightarrow> fault + byte list" where
  "storePixel fmt fb offset x r g b =
     (case fmt of
        RGB565_LE \<Rightarrow>
          (let color = rgb888To565 r g b in
           thenF (poke fb (offset * 2) (ucast color)) (\<lambda>fb1.
           poke fb1 (offset * 2 + 1) (ucast (drop_bit 8 color))))
      | RGB565_BE \<Rightarrow>
          (let color = rgb888To565 r g b in
           thenF (poke fb (offset * 2) (ucast (drop_bit 8 color))) (\<lambda>fb1.
           poke fb1 (offset * 2 + 1) (ucast color)))
      | RGB888 \<Rightarrow>
          thenF (poke fb (offset * 3) r) (\<lambda>fb1.
          thenF (poke fb1 (offset * 3 + 1) g) (\<lambda>fb2.
          poke fb2 (offset * 3 + 2) b))
      | ARGB8888 \<Rightarrow>
          thenF (poke fb (offset * 4) 0xFF) (\<lambda>fb1.
          thenF (poke fb1 (offset * 4 + 1) r) (\<lambda>fb2.
          thenF (poke fb2 (offset * 4 + 2) g) (\<lambda>fb3.
          poke fb3 (offset * 4 + 3) b)))
      | GRAYSCALE_8BIT \<Rightarrow> poke fb offset (rgb888ToGrayscale r g b)
      | MONOCHROME_1BIT \<Rightarrow>
          (let gray = rgb888ToGrayscale r g b;
               bitPosition = unat (x mod 8);
               byteOffset = unat (word_of_nat (offset div 8) :: byte)
           in thenF (peek fb byteOffset) (\<lambda>old.
              if gray > 127 then poke fb byteOffset (old OR push_bit (7 - bitPosition) 1)
              else poke fb byteOffset (old AND NOT (push_bit (7 - bitPosition) 1)))))"

definition drawPixel :: "Impl \<Rightarrow> u16 \<Rightarrow> u16 \<Rightarrow> byte \<Rightarrow> byte \<Rightarrow> byte \<Rightarrow> fault + Impl" where
  "drawPixel s x y r g b =
     (if x \<ge> canvasWidth s \<or> y \<ge> canvasHeight s then Inr s
      else
        (let s1 = (if pixelCallback s
                   then s\<lparr>pixelLog := pixelLog s @ [(x, y, rgb888To565 r g b)]\<rparr> else s)
         in case frameBuffer s1 of
              None \<Rightarrow> Inr s1
            | Some fb \<Rightarrow>
                thenF (storePixel (pixelFormat s1) fb
                         (unat y * unat (canvasWidth s1) + unat x) x r g b)
                  (\<lambda>fb'. Inr (s1\<lparr>frameBuffer := Some fb'\<rparr>))))"

text \<open>
  \<^verbatim>\<open>uint32_t rgb = colorTable[colorIndex]\<close>: the table pointer is a \<^verbatim>\<open>uint32_t*\<close> over
  the bytes read from the stream, so entry \<open>i\<close> is the little-endian word at bytes
  \<open>4 i \<dots> 4 i + 3\<close> (the ESP32 is little-endian), and a read past the \<open>3 * size\<close>
  allocated bytes is out of bounds.
\<close>

definition colorTableEntry :: "byte list \<Rightarrow> nat \<Rightarrow> fault + u32" where
  "colorTableEntry tab i =
     (if 4 * i + 3 < length tab
      then Inr (ucast (tab ! (4 * i)) OR push_bit 8 (ucast (tab ! (4 * i + 1)))
                OR push_bit 16 (ucast (tab ! (4 * i + 2)))
                OR push_bit 24 (ucast (tab ! (4 * i + 3))))
      else Inl OutOfBounds)"

text \<open>
  One iteration of the inner loop of \<^verbatim>\<open>fillTestPattern\<close>. The index is
  \<^verbatim>\<open>(x + y) % _localColorTableSize\<close>, whichever table was chosen; a zero divisor is
  undefined in C and traps on the target.
\<close>

definition testPatternPixel :: "byte list \<Rightarrow> u16 \<Rightarrow> u16 \<Rightarrow> Impl \<Rightarrow> fault + Impl" where
  "testPatternPixel colorTable y x s =
     (if localColorTableSize s = 0 then Inl DivisionByZero
      else
        (let colorIndex = (word_of_nat ((unat x + unat y) mod unat (localColorTableSize s)) :: byte)
         in if hasTransparency s \<and> colorIndex = transparentIndex s then Inr s
            else
              thenF (colorTableEntry colorTable (unat colorIndex)) (\<lambda>rgb.
                drawPixel s (x + frameX s) (y + frameY s)
                  (ucast (drop_bit 16 rgb)) (ucast (drop_bit 8 rgb)) (ucast rgb))))"

definition fillTestPattern :: "Impl \<Rightarrow> fault + Impl" where
  "fillTestPattern s =
     (case (case localColorTable s of Some t \<Rightarrow> Some t | None \<Rightarrow> globalColorTable s) of
        None \<Rightarrow> Inr s
      | Some colorTable \<Rightarrow>
          if frameBuffer s = None then Inr s
          else
            foldF (\<lambda>y. foldF (\<lambda>x. testPatternPixel colorTable (word_of_nat y) (word_of_nat x))
                           [0 ..< unat (frameWidth s)])
              [0 ..< unat (frameHeight s)] s)"

text \<open>
  \<^verbatim>\<open>applyDisposal\<close>, acting on \<^verbatim>\<open>_disposalMethod\<close> and the frame rectangle as they
  stand when it is called, and then saving the canvas into \<^verbatim>\<open>_previousFrame\<close>.
\<close>

definition applyDisposal :: "Impl \<Rightarrow> fault + Impl" where
  "applyDisposal s =
     thenF
       (if disposalMethod s = 2 then
          (case globalColorTable s of
             Some colorTable \<Rightarrow>
               if ucast (backgroundColor s) < globalColorTableSize s then
                 thenF (colorTableEntry colorTable (unat (backgroundColor s))) (\<lambda>rgb.
                   foldF (\<lambda>y. foldF (\<lambda>x s'.
                             drawPixel s' (word_of_nat x + frameX s') (word_of_nat y + frameY s')
                               (ucast (drop_bit 16 rgb)) (ucast (drop_bit 8 rgb)) (ucast rgb))
                           [0 ..< unat (frameWidth s)])
                     [0 ..< unat (frameHeight s)] s)
               else Inr s
           | None \<Rightarrow> Inr s)
        else if disposalMethod s = 3 then
          (case (frameBuffer s, previousFrame s) of
             (Some fb, Some pf) \<Rightarrow>
               thenF (memcpyBuf fb pf (bufferSize s)) (\<lambda>fb'. Inr (s\<lparr>frameBuffer := Some fb'\<rparr>))
           | _ \<Rightarrow> Inr s)
        else Inr s)
       (\<lambda>s1.
          case (frameBuffer s1, previousFrame s1) of
            (Some fb, Some pf) \<Rightarrow>
              thenF (memcpyBuf pf fb (bufferSize s1)) (\<lambda>pf'. Inr (s1\<lparr>previousFrame := Some pf'\<rparr>))
          | _ \<Rightarrow> Inr s1)"

section \<open>Container parsing and the pre-scan\<close>

text \<open>\<^verbatim>\<open>lo | (hi << 8)\<close>, stored in a \<^verbatim>\<open>uint16_t\<close>.\<close>

definition le16 :: "byte \<Rightarrow> byte \<Rightarrow> u16" where
  "le16 lo hi = ucast lo OR push_bit 8 (ucast hi)"

definition GIF89a :: "byte list" where
  "GIF89a = [0x47, 0x49, 0x46, 0x38, 0x39, 0x61]"

definition GIF87a :: "byte list" where
  "GIF87a = [0x47, 0x49, 0x46, 0x38, 0x37, 0x61]"

text \<open>\<^verbatim>\<open>1 << ((flags & 0x07) + 1)\<close>, the size of a color table.\<close>

definition colorTableSizeOf :: "byte \<Rightarrow> u16" where
  "colorTableSizeOf flags = push_bit (unat ((flags AND 0x07) + 1)) 1"

text \<open>
  The loops of \<^verbatim>\<open>countFrames\<close> that skip a chain of sub-blocks:
  \<^verbatim>\<open>while (pos < _dataLength) { if (!readData(block, 1, pos)) break; ... }\<close>
\<close>

fun countFrames_skip :: "nat \<Rightarrow> Impl \<Rightarrow> u32 \<Rightarrow> fault + u32" where
  "countFrames_skip 0 s pos = Inl OutOfFuel"
| "countFrames_skip (Suc n) s pos =
     (if pos < dataLength s then
        (case readData s 1 pos of
           Inl e \<Rightarrow> Inl e
         | Inr None \<Rightarrow> Inr pos
         | Inr (Some block) \<Rightarrow>
             (let subBlockSize = block ! 0; pos1 = pos + 1
              in if subBlockSize = 0 then Inr pos1
                 else countFrames_skip n s (pos1 + ucast subBlockSize)))
      else Inr pos)"

text \<open>
  The main loop of \<^verbatim>\<open>countFrames\<close>, \<^verbatim>\<open>while (pos < _dataLength - 1)\<close>; the state carries
  \<^verbatim>\<open>_totalFrames\<close> and \<^verbatim>\<open>_totalDuration\<close>. The delay is a \<^verbatim>\<open>uint16_t\<close>, its product
  with 10 an \<^verbatim>\<open>int\<close> added to the 32-bit total.
\<close>

fun countFrames_loop :: "nat \<Rightarrow> Impl \<Rightarrow> u32 \<Rightarrow> fault + Impl" where
  "countFrames_loop 0 s pos = Inl OutOfFuel"
| "countFrames_loop (Suc n) s pos =
     (if pos < dataLength s - 1 then
        (case readData s 1 pos of
           Inl e \<Rightarrow> Inl e
         | Inr None \<Rightarrow> Inr s
         | Inr (Some block) \<Rightarrow>
             if block ! 0 = 0x2C then
               (let s1 = s\<lparr>totalFrames := totalFrames s + 1\<rparr>; pos1 = pos + 10
                in case readData s1 1 pos1 of
                     Inl e \<Rightarrow> Inl e
                   | Inr None \<Rightarrow> Inr s1
                   | Inr (Some block1) \<Rightarrow>
                       (let pos2 = (if block1 ! 0 AND 0x80 \<noteq> 0
                                    then pos1 + (ucast (colorTableSizeOf (block1 ! 0)) * 3 + 1)
                                    else pos1 + 1)
                        in case countFrames_skip n s1 pos2 of
                             Inl e \<Rightarrow> Inl e
                           | Inr pos3 \<Rightarrow> countFrames_loop n s1 pos3))
             else if block ! 0 = 0x21 then
               (let pos1 = pos + 1
                in case readData s 1 pos1 of
                     Inl e \<Rightarrow> Inl e
                   | Inr None \<Rightarrow> Inr s
                   | Inr (Some block1) \<Rightarrow>
                       (let extensionType = block1 ! 0; pos2 = pos1 + 1
                        in if extensionType = 0xF9 then
                             (case readData s 5 pos2 of
                                Inl e \<Rightarrow> Inl e
                              | Inr None \<Rightarrow> Inr s
                              | Inr (Some block2) \<Rightarrow>
                                  (let delay0 = (push_bit 8 (ucast (block2 ! 2)) OR ucast (block2 ! 1) :: u16);
                                       delay = (if delay0 < 2 then 2 else delay0);
                                       s1 = s\<lparr>totalDuration := totalDuration s + ucast delay * 10\<rparr>
                                   in case countFrames_skip n s1 (pos2 + 5) of
                                        Inl e \<Rightarrow> Inl e
                                      | Inr pos3 \<Rightarrow> countFrames_loop n s1 pos3))
                           else
                             (case countFrames_skip n s pos2 of
                                Inl e \<Rightarrow> Inl e
                              | Inr pos3 \<Rightarrow> countFrames_loop n s pos3)))
             else if block ! 0 = 0x3B then Inr s
             else countFrames_loop n s (pos + 1))
      else Inr s)"

definition countFrames :: "nat \<Rightarrow> Impl \<Rightarrow> fault + Impl" where
  "countFrames fuel s =
     (case countFrames_loop fuel (s\<lparr>totalFrames := 0, totalDuration := 0\<rparr>) (dataPosition s) of
        Inl e \<Rightarrow> Inl e
      | Inr s1 \<Rightarrow> Inr (s1\<lparr>dataPosition := 13 + ucast (globalColorTableSize s1) * 3\<rparr>))"

text \<open>
  The end of \<^verbatim>\<open>parseHeader\<close>, reached from each of its paths that does not return
  early: the pre-scan, the canvas buffers, success.
\<close>

definition parseHeader_finish :: "nat \<Rightarrow> Impl \<Rightarrow> fault + GIFError \<times> Impl" where
  "parseHeader_finish fuel s =
     (case countFrames fuel s of
        Inl e \<Rightarrow> Inl e
      | Inr s1 \<Rightarrow> Inr (SUCCESS, (allocateFrameBuffer s1)\<lparr>lastError := SUCCESS\<rparr>))"

definition parseHeader :: "nat \<Rightarrow> Impl \<Rightarrow> fault + GIFError \<times> Impl" where
  "parseHeader fuel s =
     (case readData s 13 0 of
        Inl e \<Rightarrow> Inl e
      | Inr None \<Rightarrow> Inr (FILE_NOT_FOUND, s\<lparr>lastError := FILE_NOT_FOUND\<rparr>)
      | Inr (Some header) \<Rightarrow>
          if take 6 header \<noteq> GIF89a \<and> take 6 header \<noteq> GIF87a
          then Inr (BAD_FILE_FORMAT, s\<lparr>lastError := BAD_FILE_FORMAT\<rparr>)
          else
            (let s1 = s\<lparr>canvasWidth := le16 (header ! 6) (header ! 7),
                        canvasHeight := le16 (header ! 8) (header ! 9)\<rparr>
             in if canvasWidth s1 > ESP32_ANIMATEDGIF_MAX_WIDTH
                   \<or> canvasHeight s1 > ESP32_ANIMATEDGIF_MAX_HEIGHT
                then Inr (FILE_TOO_WIDE, s1\<lparr>lastError := FILE_TOO_WIDE\<rparr>)
                else
                  (let flags = header ! 10;
                       s2 = s1\<lparr>backgroundColor := header ! 11, dataPosition := 13\<rparr>
                   in if flags AND 0x80 \<noteq> 0 then
                        (let s3 = s2\<lparr>globalColorTableSize := colorTableSizeOf flags\<rparr>;
                             (tab, s4) = allocateMemory (unat (globalColorTableSize s3) * 3) s3;
                             s5 = s4\<lparr>globalColorTable := tab\<rparr>
                         in case tab of
                              None \<Rightarrow> parseHeader_finish fuel s5
                            | Some _ \<Rightarrow>
                                (case readData s5 (ucast (globalColorTableSize s5) * 3) (dataPosition s5) of
                                   Inl e \<Rightarrow> Inl e
                                 | Inr None \<Rightarrow> Inr (EARLY_EOF, s5\<lparr>lastError := EARLY_EOF\<rparr>)
                                 | Inr (Some bytes) \<Rightarrow>
                                     parseHeader_finish fuel
                                       (s5\<lparr>globalColorTable := Some bytes,
                                           dataPosition := dataPosition s5
                                             + ucast (globalColorTableSize s5) * 3\<rparr>)))
                      else parseHeader_finish fuel s2)))"

section \<open>The per-frame scan\<close>

text \<open>
  The frame delay as \<^verbatim>\<open>parseFrame\<close> computes it from the two delay bytes of a Graphic
  Control Extension:
  \<^verbatim>\<open>_frameDelay = ((block[2] << 8) | block[1]) * 10; if (_frameDelay < 20) _frameDelay = 20;\<close>
  The product is an \<^verbatim>\<open>int\<close>; the assignment narrows it to the \<^verbatim>\<open>uint16_t\<close> field.
\<close>

definition gceFrameDelay :: "byte \<Rightarrow> byte \<Rightarrow> u16" where
  "gceFrameDelay lo hi =
     (let d = (ucast ((push_bit 8 (ucast hi) OR ucast lo :: u32) * 10) :: u16)
      in if d < 20 then 20 else d)"

text \<open>The \<^verbatim>\<open>while (true)\<close> loop of \<^verbatim>\<open>parseFrame\<close> that skips an extension's sub-blocks.\<close>

fun parseFrame_skip :: "nat \<Rightarrow> Impl \<Rightarrow> fault + bool \<times> Impl" where
  "parseFrame_skip 0 s = Inl OutOfFuel"
| "parseFrame_skip (Suc n) s =
     (case readData s 1 (dataPosition s) of
        Inl e \<Rightarrow> Inl e
      | Inr None \<Rightarrow> Inr (False, s\<lparr>lastError := EARLY_EOF\<rparr>)
      | Inr (Some block) \<Rightarrow>
          (let subBlockSize = block ! 0;
               s1 = s\<lparr>dataPosition := dataPosition s + 1\<rparr>
           in if subBlockSize = 0 then Inr (True, s1)
              else parseFrame_skip n (s1\<lparr>dataPosition := dataPosition s1 + ucast subBlockSize\<rparr>)))"

text \<open>The Image Descriptor branch of \<^verbatim>\<open>parseFrame\<close>, which always returns.\<close>

definition parseImageDescriptor :: "Impl \<Rightarrow> fault + bool \<times> Impl" where
  "parseImageDescriptor s =
     (case readData s 9 (dataPosition s + 1) of
        Inl e \<Rightarrow> Inl e
      | Inr None \<Rightarrow> Inr (False, s\<lparr>lastError := EARLY_EOF\<rparr>)
      | Inr (Some block) \<Rightarrow>
          (let s1 = s\<lparr>frameX := le16 (block ! 0) (block ! 1),
                      frameY := le16 (block ! 2) (block ! 3),
                      frameWidth := le16 (block ! 4) (block ! 5),
                      frameHeight := le16 (block ! 6) (block ! 7),
                      imageFlags := block ! 8,
                      dataPosition := dataPosition s + 10\<rparr>
           in if imageFlags s1 AND 0x80 \<noteq> 0 then
                (let s2 = s1\<lparr>localColorTableSize := colorTableSizeOf (imageFlags s1),
                             localColorTable := None\<rparr>;
                     (tab, s3) = allocateMemory (unat (localColorTableSize s2) * 3) s2;
                     s4 = s3\<lparr>localColorTable := tab\<rparr>
                 in case tab of
                      None \<Rightarrow> Inr (True, s4)
                    | Some _ \<Rightarrow>
                        (case readData s4 (ucast (localColorTableSize s4) * 3) (dataPosition s4) of
                           Inl e \<Rightarrow> Inl e
                         | Inr None \<Rightarrow> Inr (False, s4\<lparr>lastError := EARLY_EOF\<rparr>)
                         | Inr (Some bytes) \<Rightarrow>
                             Inr (True, s4\<lparr>localColorTable := Some bytes,
                                          dataPosition := dataPosition s4
                                            + ucast (localColorTableSize s4) * 3\<rparr>)))
              else Inr (True, s1)))"

text \<open>The main loop of \<^verbatim>\<open>parseFrame\<close>, \<^verbatim>\<open>while (_dataPosition < _dataLength)\<close>.\<close>

fun parseFrame_loop :: "nat \<Rightarrow> Impl \<Rightarrow> fault + bool \<times> Impl" where
  "parseFrame_loop 0 s = Inl OutOfFuel"
| "parseFrame_loop (Suc n) s =
     (if dataPosition s < dataLength s then
        (case readData s 1 (dataPosition s) of
           Inl e \<Rightarrow> Inl e
         | Inr None \<Rightarrow> Inr (False, s\<lparr>lastError := EARLY_EOF\<rparr>)
         | Inr (Some block) \<Rightarrow>
             if block ! 0 = 0x21 then
               (let s1 = s\<lparr>dataPosition := dataPosition s + 1\<rparr>
                in case readData s1 1 (dataPosition s1) of
                     Inl e \<Rightarrow> Inl e
                   | Inr None \<Rightarrow> Inr (False, s1\<lparr>lastError := EARLY_EOF\<rparr>)
                   | Inr (Some block1) \<Rightarrow>
                       (let extensionType = block1 ! 0;
                            s2 = s1\<lparr>dataPosition := dataPosition s1 + 1\<rparr>
                        in if extensionType = 0xF9 then
                             (case readData s2 5 (dataPosition s2) of
                                Inl e \<Rightarrow> Inl e
                              | Inr None \<Rightarrow> Inr (False, s2\<lparr>lastError := EARLY_EOF\<rparr>)
                              | Inr (Some block2) \<Rightarrow>
                                  (let packed = block2 ! 0;
                                       s3 = s2\<lparr>disposalMethod := drop_bit 2 packed AND 0x07,
                                                hasTransparency := (packed AND 0x01 \<noteq> 0),
                                                frameDelay := gceFrameDelay (block2 ! 1) (block2 ! 2),
                                                transparentIndex := block2 ! 3,
                                                dataPosition := dataPosition s2 + 5\<rparr>
                                   in case parseFrame_skip n s3 of
                                        Inl e \<Rightarrow> Inl e
                                      | Inr (False, s4) \<Rightarrow> Inr (False, s4)
                                      | Inr (True, s4) \<Rightarrow> parseFrame_loop n s4))
                           else
                             (case parseFrame_skip n s2 of
                                Inl e \<Rightarrow> Inl e
                              | Inr (False, s4) \<Rightarrow> Inr (False, s4)
                              | Inr (True, s4) \<Rightarrow> parseFrame_loop n s4)))
             else if block ! 0 = 0x2C then parseImageDescriptor s
             else if block ! 0 = 0x3B then Inr (False, s\<lparr>lastError := EMPTY_FRAME\<rparr>)
             else parseFrame_loop n (s\<lparr>dataPosition := dataPosition s + 1\<rparr>))
      else Inr (False, s\<lparr>lastError := EMPTY_FRAME\<rparr>))"

definition parseFrame :: "nat \<Rightarrow> Impl \<Rightarrow> fault + bool \<times> Impl" where
  "parseFrame fuel s = parseFrame_loop fuel (resetFrameState s)"

section \<open>Frame pixel production\<close>

text \<open>
  The \<^verbatim>\<open>do { ... } while (subBlockSize > 0)\<close> loop of \<^verbatim>\<open>decodeFrame\<close>: the compressed
  sub-blocks are stepped over, none of their bytes is read.
\<close>

fun decodeFrame_skip :: "nat \<Rightarrow> Impl \<Rightarrow> fault + bool \<times> Impl" where
  "decodeFrame_skip 0 s = Inl OutOfFuel"
| "decodeFrame_skip (Suc n) s =
     (case readData s 1 (dataPosition s) of
        Inl e \<Rightarrow> Inl e
      | Inr None \<Rightarrow> Inr (False, s\<lparr>lastError := DECODE_ERROR\<rparr>)
      | Inr (Some block) \<Rightarrow>
          (let subBlockSize = block ! 0;
               s1 = s\<lparr>dataPosition := dataPosition s + 1 + ucast subBlockSize\<rparr>
           in if subBlockSize > 0 then decodeFrame_skip n s1 else Inr (True, s1)))"

definition decodeFrame :: "nat \<Rightarrow> Impl \<Rightarrow> fault + bool \<times> Impl" where
  "decodeFrame fuel s =
     (case readData s 1 (dataPosition s) of
        Inl e \<Rightarrow> Inl e
      | Inr None \<Rightarrow> Inr (False, s\<lparr>lastError := DECODE_ERROR\<rparr>)
      | Inr (Some lzwCodeSize) \<Rightarrow>
          (case decodeFrame_skip fuel (s\<lparr>dataPosition := dataPosition s + 1\<rparr>) of
             Inl e \<Rightarrow> Inl e
           | Inr (False, s1) \<Rightarrow> Inr (False, s1)
           | Inr (True, s1) \<Rightarrow>
               (case fillTestPattern s1 of
                  Inl e \<Rightarrow> Inl e
                | Inr s2 \<Rightarrow> Inr (True, s2))))"

section \<open>Playback\<close>

text \<open>\<^verbatim>\<open>reset\<close> discards the result of \<^verbatim>\<open>parseHeader\<close>.\<close>

definition reset :: "nat \<Rightarrow> Impl \<Rightarrow> fault + Impl" where
  "reset fuel s =
     (case resetFrameBuffer (s\<lparr>dataPosition := 0, currentFrame := 0\<rparr>) of
        Inl e \<Rightarrow> Inl e
      | Inr s1 \<Rightarrow>
          (case parseHeader fuel s1 of
             Inl e \<Rightarrow> Inl e
           | Inr (_, s2) \<Rightarrow> Inr s2))"

text \<open>
  The part of \<^verbatim>\<open>nextFrame\<close> after the restart test, in the order of the source:
  \<^verbatim>\<open>parseFrame\<close>, \<^verbatim>\<open>decodeFrame\<close>, \<^verbatim>\<open>applyDisposal\<close>, the frame counter, the wait.
\<close>

definition nextFrame_body :: "nat \<Rightarrow> bool \<Rightarrow> Impl \<Rightarrow> fault + GIFError \<times> Impl" where
  "nextFrame_body fuel syncDelay s =
     (case parseFrame fuel s of
        Inl e \<Rightarrow> Inl e
      | Inr (False, s1) \<Rightarrow> Inr (lastError s1, s1)
      | Inr (True, s1) \<Rightarrow>
          (case decodeFrame fuel s1 of
             Inl e \<Rightarrow> Inl e
           | Inr (False, s2) \<Rightarrow> Inr (lastError s2, s2)
           | Inr (True, s2) \<Rightarrow>
               (case applyDisposal s2 of
                  Inl e \<Rightarrow> Inl e
                | Inr s3 \<Rightarrow>
                    (let s4 = s3\<lparr>currentFrame := currentFrame s3 + 1\<rparr>;
                         s5 = (if syncDelay \<and> frameDelay s4 > 0
                               then s4\<lparr>waited := waited s4 + unat (frameDelay s4)\<rparr> else s4)
                     in Inr (SUCCESS, s5)))))"

definition nextFrame :: "nat \<Rightarrow> bool \<Rightarrow> Impl \<Rightarrow> fault + GIFError \<times> Impl" where
  "nextFrame fuel syncDelay s =
     (if lastError s \<noteq> SUCCESS then Inr (lastError s, s)
      else if currentFrame s \<ge> totalFrames s \<and> loop s then
        (case reset fuel s of
           Inl e \<Rightarrow> Inl e
         | Inr s1 \<Rightarrow> nextFrame_body fuel syncDelay s1)
      else if currentFrame s \<ge> totalFrames s then
        Inr (EMPTY_FRAME, s\<lparr>lastError := EMPTY_FRAME\<rparr>)
      else nextFrame_body fuel syncDelay s)"

definition getLastError :: "Impl \<Rightarrow> GIFError" where
  "getLastError s = lastError s"

definition getCurrentFrame :: "Impl \<Rightarrow> u16" where
  "getCurrentFrame s = currentFrame s"

definition getFrameCount :: "Impl \<Rightarrow> u16" where
  "getFrameCount s = totalFrames s"



section \<open>Loading\<close>

text \<open>
  \<^verbatim>\<open>loadFromMemory(data, length)\<close>: the caller's buffer is a byte list whose length is
  the \<^verbatim>\<open>length\<close> argument, \<open>None\<close> a null pointer. The copy is kept in \<^verbatim>\<open>_data\<close>; no
  path of this function releases it.
\<close>

definition loadFromMemory :: "nat \<Rightarrow> byte list option \<Rightarrow> Impl \<Rightarrow> fault + GIFError \<times> Impl" where
  "loadFromMemory fuel input s =
     (let s0 = cleanup s
      in case input of
           None \<Rightarrow> Inr (INVALID_PARAMETER, s0\<lparr>lastError := INVALID_PARAMETER\<rparr>)
         | Some bytes \<Rightarrow>
             if length bytes = 0
             then Inr (INVALID_PARAMETER, s0\<lparr>lastError := INVALID_PARAMETER\<rparr>)
             else
               (let (p, s1) = allocateMemory (length bytes) s0
                in case p of
                     None \<Rightarrow> Inr (OUT_OF_MEMORY, s1\<lparr>data := None, lastError := OUT_OF_MEMORY\<rparr>)
                   | Some _ \<Rightarrow>
                       parseHeader fuel
                         (s1\<lparr>data := Some bytes, dataLength := word_of_nat (length bytes),
                             dataPosition := 0\<rparr>)))"

text \<open>
  \<^verbatim>\<open>load(reader, userData)\<close> parses the 13 header bytes itself and reads the global
  color table; it calls neither \<^verbatim>\<open>countFrames\<close> nor \<^verbatim>\<open>allocateFrameBuffer\<close> and
  leaves \<^verbatim>\<open>_dataLength\<close> and \<^verbatim>\<open>_dataPosition\<close> as \<^verbatim>\<open>cleanup\<close> left them.
\<close>

definition load :: "DataReader option \<Rightarrow> Impl \<Rightarrow> fault + GIFError \<times> Impl" where
  "load rd s =
     (let s0 = cleanup s
      in case rd of
           None \<Rightarrow> Inr (INVALID_PARAMETER, s0\<lparr>lastError := INVALID_PARAMETER\<rparr>)
         | Some r \<Rightarrow>
             (let s1 = s0\<lparr>reader := Some r\<rparr>
              in case readData s1 13 0 of
                   Inl e \<Rightarrow> Inl e
                 | Inr None \<Rightarrow> Inr (FILE_NOT_FOUND, s1\<lparr>lastError := FILE_NOT_FOUND\<rparr>)
                 | Inr (Some header) \<Rightarrow>
                     if take 6 header \<noteq> GIF89a \<and> take 6 header \<noteq> GIF87a
                     then Inr (BAD_FILE_FORMAT, s1\<lparr>lastError := BAD_FILE_FORMAT\<rparr>)
                     else
                       (let s2 = s1\<lparr>canvasWidth := le16 (header ! 6) (header ! 7),
                                    canvasHeight := le16 (header ! 8) (header ! 9)\<rparr>
                        in if canvasWidth s2 > ESP32_ANIMATEDGIF_MAX_WIDTH
                              \<or> canvasHeight s2 > ESP32_ANIMATEDGIF_MAX_HEIGHT
                           then Inr (FILE_TOO_WIDE, s2\<lparr>lastError := FILE_TOO_WIDE\<rparr>)
                           else
                             (let flags = header ! 10;
                                  s3 = s2\<lparr>backgroundColor := header ! 11\<rparr>
                              in if flags AND 0x80 \<noteq> 0 then
                                   (let s4 = s3\<lparr>globalColorTableSize := colorTableSizeOf flags\<rparr>;
                                        (tab, s5) = allocateMemory (unat (globalColorTableSize s4) * 3) s4;
                                        s6 = s5\<lparr>globalColorTable := tab\<rparr>
                                    in case tab of
                                         None \<Rightarrow> Inr (SUCCESS, s6\<lparr>lastError := SUCCESS\<rparr>)
                                       | Some _ \<Rightarrow>
                                           (case readData s6 (ucast (globalColorTableSize s6) * 3) 13 of
                                              Inl e \<Rightarrow> Inl e
                                            | Inr None \<Rightarrow> Inr (SUCCESS, s6\<lparr>lastError := SUCCESS\<rparr>)
                                            | Inr (Some bytes) \<Rightarrow>
                                                Inr (SUCCESS, s6\<lparr>globalColorTable := Some bytes,
                                                                 lastError := SUCCESS\<rparr>)))
                                 else Inr (SUCCESS, s3\<lparr>lastError := SUCCESS\<rparr>)))))"

text \<open>
  The decoder as its constructor leaves it, over a given allocator. The constructor does
  not initialise \<^verbatim>\<open>_backgroundColor\<close>; the background index is taken as 0 here.
\<close>

definition newImpl :: "(nat \<Rightarrow> nat \<Rightarrow> bool) \<Rightarrow> Impl" where
  "newImpl ok =
     resetState
       \<lparr>data = None, dataLength = 0, dataPosition = 0, reader = None,
        pixelCallback = False, pixelLog = [], currentFrame = 0, totalFrames = 0,
        loopCount = 0, loop = True, pixelFormat = RGB565_LE, lastError = SUCCESS,
        canvasWidth = 0, canvasHeight = 0, frameX = 0, frameY = 0, frameWidth = 0,
        frameHeight = 0, frameDelay = 0, disposalMethod = 0, imageFlags = 0,
        hasTransparency = False, transparentIndex = 0, backgroundColor = 0,
        globalColorTable = None, localColorTable = None, globalColorTableSize = 0,
        localColorTableSize = 0, frameBuffer = None, previousFrame = None,
        totalDuration = 0, allocOk = ok, allocCount = 0, waited = 0\<rparr>"

text \<open>\<^verbatim>\<open>begin\<close> sets the pixel format, resets the state and clears the last error.\<close>

definition begin_decoder :: "PixelFormat \<Rightarrow> Impl \<Rightarrow> Impl" where
  "begin_decoder fmt s = (resetState (s\<lparr>pixelFormat := fmt\<rparr>))\<lparr>lastError := SUCCESS\<rparr>"

text \<open>A sequence of \<^verbatim>\<open>nextFrame\<close> calls, one per flag, collecting what each returns.\<close>

fun nextFrame_calls :: "nat \<Rightarrow> bool list \<Rightarrow> Impl \<Rightarrow> fault + GIFError list \<times> Impl" where
  "nextFrame_calls fuel [] s = Inr ([], s)"
| "nextFrame_calls fuel (syncDelay # rest) s =
     (case nextFrame fuel syncDelay s of
        Inl e \<Rightarrow> Inl e
      | Inr (r, s1) \<Rightarrow>
          (case nextFrame_calls fuel rest s1 of
             Inl e \<Rightarrow> Inl e
           | Inr (rs, s2) \<Rightarrow> Inr (r # rs, s2)))"

section \<open>Sample streams and sessions\<close>

text \<open>
  Concrete inputs on which the decoder is run below. The allocator always succeeds, and
  a pull-reader serves a byte list.
\<close>

definition allocAlways :: "nat \<Rightarrow> nat \<Rightarrow> bool" where
  "allocAlways k n = True"

definition bufferReader :: "byte list \<Rightarrow> DataReader" where
  "bufferReader bytes len pos =
     (if unat pos + unat len \<le> length bytes
      then Some (take (unat len) (drop (unat pos) bytes)) else None)"

text \<open>
  A 1 by 1 canvas with a global color table of four entries and background index 1.
\<close>

definition sampleHeader :: "byte list" where
  "sampleHeader =
     GIF89a @ [1, 0, 1, 0, 0x81, 1, 0]
     @ [0x10, 0x11, 0x12, 0x20, 0x21, 0x22, 0x30, 0x31, 0x32, 0x40, 0x41, 0x42]"

text \<open>
  One 1 by 1 frame without a local color table. Its compressed data (minimum code size
  2, codes Clear, 1, End) encode the single index 1.
\<close>

definition gifGlobalOnly :: "byte list" where
  "gifGlobalOnly =
     sampleHeader @ [0x2C, 0, 0, 0, 0, 1, 0, 1, 0, 0x00]
     @ [0x02, 0x02, 0x4C, 0x01, 0x00] @ [0x3B]"

definition sampleLocalTable :: "byte list" where
  "sampleLocalTable =
     [0xA0, 0xA1, 0xA2, 0xB0, 0xB1, 0xB2, 0xC0, 0xC1, 0xC2, 0xD0, 0xD1, 0xD2]"

text \<open>
  One 1 by 1 frame with a local color table of four entries; \<open>c\<close> is the first byte of
  the compressed data: \<open>0x4C\<close> encodes the index 1, \<open>0x54\<close> the index 2.
\<close>

definition gifLocal :: "byte \<Rightarrow> byte list" where
  "gifLocal c =
     sampleHeader @ [0x2C, 0, 0, 0, 0, 1, 0, 1, 0, 0x81] @ sampleLocalTable
     @ [0x02, 0x02, c, 0x01, 0x00] @ [0x3B]"

text \<open>
  The same frame after a Graphic Control Extension whose five payload bytes are the
  packed flags, the delay (low byte, high byte), the transparent index and one more
  byte, followed by the terminator of the sub-block chain.
\<close>

definition gifGce :: "byte \<Rightarrow> byte \<Rightarrow> byte \<Rightarrow> byte list" where
  "gifGce packed lo hi =
     sampleHeader @ [0x21, 0xF9, packed, lo, hi, 0, 0, 0x00]
     @ [0x2C, 0, 0, 0, 0, 1, 0, 1, 0, 0x81] @ sampleLocalTable
     @ [0x02, 0x02, 0x4C, 0x01, 0x00] @ [0x3B]"

text \<open>A header with a valid signature and a canvas 801 wide.\<close>

definition wideHeader :: "byte list" where
  "wideHeader = GIF89a @ [0x21, 0x03, 1, 0, 0, 0, 0]"


text \<open>
  A session: \<^verbatim>\<open>begin(RGB888)\<close> on a new decoder, then \<^verbatim>\<open>loadFromMemory\<close>.
\<close>

definition loaded :: "byte list \<Rightarrow> fault + GIFError \<times> Impl" where
  "loaded bytes = loadFromMemory 100 (Some bytes) (begin_decoder RGB888 (newImpl allocAlways))"

text \<open>\<dots> then one call of \<^verbatim>\<open>nextFrame(false)\<close>.\<close>

definition firstFrame :: "byte list \<Rightarrow> fault + GIFError \<times> Impl" where
  "firstFrame bytes =
     (case loaded bytes of Inl e \<Rightarrow> Inl e | Inr (_, s) \<Rightarrow> nextFrame 100 False s)"

text \<open>
  \<dots> or the first two steps of that call only: the state after \<^verbatim>\<open>parseFrame\<close>, and
  the state after \<^verbatim>\<open>decodeFrame\<close> has drawn the frame, before \<^verbatim>\<open>applyDisposal\<close>.
\<close>

definition firstFrameParsed :: "byte list \<Rightarrow> fault + bool \<times> Impl" where
  "firstFrameParsed bytes =
     (case loaded bytes of Inl e \<Rightarrow> Inl e | Inr (_, s) \<Rightarrow> parseFrame 100 s)"

definition firstFrameDrawn :: "byte list \<Rightarrow> fault + bool \<times> Impl" where
  "firstFrameDrawn bytes =
     (case firstFrameParsed bytes of Inl e \<Rightarrow> Inl e | Inr (_, s) \<Rightarrow> decodeFrame 100 s)"




text \<open>The pull-reader path: \<^verbatim>\<open>load\<close> on a new decoder, with a reader over the bytes.\<close>

definition loadedByReader :: "byte list \<Rightarrow> fault + GIFError \<times> Impl" where
  "loadedByReader bytes = load (Some (bufferReader bytes)) (newImpl allocAlways)"

text \<open>
  A session that loads \<open>gifGlobalOnly\<close> through a pull-reader and then calls
  \<^verbatim>\<open>loadFromMemory\<close> on another buffer.
\<close>

definition loadedAfterReader :: "byte list \<Rightarrow> fault + GIFError \<times> Impl" where
  "loadedAfterReader bytes =
     (case loadedByReader gifGlobalOnly of
        Inl e \<Rightarrow> Inl e
      | Inr (_, s) \<Rightarrow> loadFromMemory 100 (Some bytes) s)"











section \<open>Sessions, headers and frames that the statements speak of\<close>

text \<open>
  A session over a copy of the input \<open>d\<close>, as \<^verbatim>\<open>loadFromMemory\<close> sets it up: no reader
  is registered, \<^verbatim>\<open>_data\<close> holds \<open>d\<close> and \<^verbatim>\<open>_dataLength\<close> its length. The input is
  not empty and shorter than \<open>2 ^ 31\<close> bytes, so that no cursor of the scans wraps.
\<close>

definition memorySession :: "Impl \<Rightarrow> byte list \<Rightarrow> bool" where
  "memorySession s d \<longleftrightarrow>
     reader s = None \<and> data s = Some d \<and> dataLength s = word_of_nat (length d)
     \<and> 0 < length d \<and> length d < 2 ^ 31"


text \<open>The canvas as \<^verbatim>\<open>allocateFrameBuffer\<close> leaves it: absent, or all zero.\<close>

definition canvasCleared :: "Impl \<Rightarrow> bool" where
  "canvasCleared s \<longleftrightarrow>
     frameBuffer s = None \<or> frameBuffer s = Some (replicate (bufferSize s) 0)"

text \<open>
  What the per-frame scan leaves as it is, and what it has stored when it returns
  \<^verbatim>\<open>true\<close>: the position, size and flags of an Image Descriptor that starts at
  offset \<open>p\<close> of the input.
\<close>

definition scanKeeps :: "Impl \<Rightarrow> Impl \<Rightarrow> bool" where
  "scanKeeps s s' \<longleftrightarrow>
     reader s' = reader s \<and> data s' = data s \<and> dataLength s' = dataLength s
     \<and> currentFrame s' = currentFrame s \<and> frameBuffer s' = frameBuffer s
     \<and> globalColorTableSize s' = globalColorTableSize s
     \<and> canvasWidth s' = canvasWidth s \<and> canvasHeight s' = canvasHeight s
     \<and> pixelFormat s' = pixelFormat s"



text \<open>Two states that differ in the canvas and in the log of the pixel callback only.\<close>

definition drawsOnly :: "Impl \<Rightarrow> Impl \<Rightarrow> bool" where
  "drawsOnly s s' \<longleftrightarrow> s' = s\<lparr>pixelLog := pixelLog s', frameBuffer := frameBuffer s'\<rparr>"

section \<open>Properties\<close>

subsection \<open>Facts about bytes\<close>

lemma byte_bound: "unat (x::byte) < 256"
  using unsigned_less [of x, where 'a = nat] by simp

lemma unat_ucast_byte: "unat (ucast (x::byte) :: u32) = unat x"
  using byte_bound [of x] by (simp add: unsigned_ucast_eq take_bit_nat_eq_self)

lemma gray_sum_unat:
  "unat ((ucast (r::byte) :: u32) * 77 + ucast (g::byte) * 150 + ucast (b::byte) * 29)
     = 77 * unat r + 150 * unat g + 29 * unat b"
  using byte_bound [of r] byte_bound [of g] byte_bound [of b]
  by (simp add: unat_word_ariths unat_ucast_byte)

subsection \<open>Grayscale conversion\<close>

text \<open>
  C10. For every RGB triplet with 8-bit components, the grayscale conversion returns
  exactly \<open>(77 R + 150 G + 29 B) >> 8\<close>: the final narrowing to \<^verbatim>\<open>uint8_t\<close> loses
  nothing, because the shifted sum never exceeds 255.
\<close>

theorem rgb888ToGrayscale_formula:
  "unat (rgb888ToGrayscale r g b) = (77 * unat r + 150 * unat g + 29 * unat b) div 2 ^ 8"
proof -
  have lt: "(77 * unat r + 150 * unat g + 29 * unat b) div 2 ^ 8 < 2 ^ 8"
    using byte_bound [of r] byte_bound [of g] byte_bound [of b] by simp
  have "unat (rgb888ToGrayscale r g b)
          = take_bit 8 ((77 * unat r + 150 * unat g + 29 * unat b) div 2 ^ 8)"
    unfolding rgb888ToGrayscale_def
    by (simp add: unsigned_ucast_eq unat_drop_bit_eq gray_sum_unat)
       (simp add: drop_bit_eq_div)
  also have "\<dots> = (77 * unat r + 150 * unat g + 29 * unat b) div 2 ^ 8"
    using lt by (rule take_bit_nat_eq_self)
  finally show ?thesis .
qed

subsection \<open>Reading and allocation\<close>

lemma cleanup_fields [simp]:
  "reader (cleanup s) = reader s"
  "allocOk (cleanup s) = allocOk s"
  "allocCount (cleanup s) = allocCount s"
  "data (cleanup s) = None"
  "frameBuffer (cleanup s) = None"
  "previousFrame (cleanup s) = None"
  "globalColorTable (cleanup s) = None"
  "localColorTable (cleanup s) = None"
  by (simp_all add: cleanup_def resetState_def resetFrameState_def)

lemma readData_memory:
  assumes "reader s = None" "data s = Some d" "dataLength s = word_of_nat (length d)"
      and "length d < 2 ^ 32" "unat len \<le> length d"
  shows "readData s len 0 = Inr (Some (take (unat len) d))"
proof -
  have "unat (word_of_nat (length d) :: u32) = length d"
    using assms(4) by (simp add: unat_of_nat)
  then have "len \<le> (word_of_nat (length d) :: u32)"
    using assms(5) by (simp add: word_le_nat_alt)
  then show ?thesis
    using assms by (simp add: readData_def not_less)
qed

lemma readData_reader:
  "reader s = Some rd \<Longrightarrow> readData s len pos = Inr (rd len pos)"
  by (simp add: readData_def)

lemma allocateMemory_fields [simp]:
  "currentFrame (snd (allocateMemory n s)) = currentFrame s"
  "dataPosition (snd (allocateMemory n s)) = dataPosition s"
  "globalColorTableSize (snd (allocateMemory n s)) = globalColorTableSize s"
  by (simp_all add: allocateMemory_def)

lemma allocateFrameBuffer_fields [simp]:
  "currentFrame (allocateFrameBuffer s) = currentFrame s"
  "dataPosition (allocateFrameBuffer s) = dataPosition s"
  "globalColorTableSize (allocateFrameBuffer s) = globalColorTableSize s"
  by (simp_all add: allocateFrameBuffer_def Let_def split_beta)

subsection \<open>Header parsing\<close>


lemma parseHeader_too_wide:
  assumes "readData s 13 0 = Inr (Some header)"
      and "take 6 header = GIF89a \<or> take 6 header = GIF87a"
      and "le16 (header ! 6) (header ! 7) > ESP32_ANIMATEDGIF_MAX_WIDTH
           \<or> le16 (header ! 8) (header ! 9) > ESP32_ANIMATEDGIF_MAX_HEIGHT"
  shows "parseHeader fuel s =
           Inr (FILE_TOO_WIDE, s\<lparr>canvasWidth := le16 (header ! 6) (header ! 7),
                                  canvasHeight := le16 (header ! 8) (header ! 9),
                                  lastError := FILE_TOO_WIDE\<rparr>)"
  using assms by (auto simp add: parseHeader_def Let_def)

lemma loadFromMemory_parses:
  assumes "reader s = None" "bytes \<noteq> []" "allocOk s (allocCount s) (length bytes)"
  shows "loadFromMemory fuel (Some bytes) s =
           parseHeader fuel
             ((cleanup s)\<lparr>allocCount := Suc (allocCount s), data := Some bytes,
                dataLength := word_of_nat (length bytes), dataPosition := 0\<rparr>)"
  using assms by (simp add: loadFromMemory_def allocateMemory_def Let_def)

subsection \<open>The pre-scan returns\<close>









lemma memorySession_counts [simp]:
  "memorySession (s\<lparr>totalFrames := tf\<rparr>) d = memorySession s d"
  "memorySession (s\<lparr>totalDuration := td\<rparr>) d = memorySession s d"
  by (simp_all add: memorySession_def)


subsection \<open>Header parsing and \<^verbatim>\<open>reset\<close> on a valid header\<close>



lemma allocateFrameBuffer_lastError [simp]:
  "lastError (allocateFrameBuffer s) = lastError s"
  by (simp add: allocateFrameBuffer_def allocateMemory_def Let_def)

lemma canvasCleared_lastError [simp]:
  "canvasCleared (s\<lparr>lastError := e\<rparr>) = canvasCleared s"
  by (simp add: canvasCleared_def bufferSize_def)





subsection \<open>The per-frame scan returns\<close>

text \<open>
  \<^verbatim>\<open>parseFrame\<close> returns: with \<^verbatim>\<open>true\<close> and the fields of an Image Descriptor that
  lies at or after the cursor it started from, or with \<^verbatim>\<open>false\<close> and one of the errors
  \<^verbatim>\<open>EARLY_EOF\<close> and \<^verbatim>\<open>EMPTY_FRAME\<close>.
\<close>

lemma scanKeeps_refl [simp]: "scanKeeps s s"
  by (simp add: scanKeeps_def)




lemma scanKeeps_cursor [simp]:
  "scanKeeps s (s\<lparr>dataPosition := p, lastError := e\<rparr>)"
  "scanKeeps s (s\<lparr>dataPosition := p\<rparr>)"
  "scanKeeps s (s\<lparr>lastError := e\<rparr>)"
  by (simp_all add: scanKeeps_def)




subsection \<open>Drawing and disposal\<close>









lemma drawsOnly_refl [simp]: "drawsOnly s s"
  by (simp add: drawsOnly_def)














subsection \<open>One frame after a rewind\<close>




lemma nextFrame_gate:
  "lastError s \<noteq> SUCCESS \<Longrightarrow> nextFrame fuel syncDelay s = Inr (lastError s, s)"
  by (simp add: nextFrame_def)

subsection \<open>The error gate of \<^verbatim>\<open>nextFrame\<close>\<close>

text \<open>
  C5. Once the last error is anything but success, every following call of
  \<^verbatim>\<open>nextFrame\<close> returns that error and leaves the whole session as it was: the frame
  index, the cursor and both canvas buffers with it. Nothing in \<^verbatim>\<open>nextFrame\<close> clears
  the error, so this lasts until \<^verbatim>\<open>reset\<close> or a load does.
\<close>

theorem nextFrame_blocked_by_error:
  assumes "lastError s \<noteq> SUCCESS"
  shows "nextFrame_calls fuel calls s = Inr (replicate (length calls) (lastError s), s)"
  using assms by (induction calls) (simp_all add: nextFrame_gate)

theorem nextFrame_blocked_by_error_witness:
  "lastError ((newImpl allocAlways)\<lparr>lastError := DECODE_ERROR\<rparr>) \<noteq> SUCCESS
   \<and> nextFrame_calls 100 [True, False, True] ((newImpl allocAlways)\<lparr>lastError := DECODE_ERROR\<rparr>)
       = Inr ([DECODE_ERROR, DECODE_ERROR, DECODE_ERROR],
              (newImpl allocAlways)\<lparr>lastError := DECODE_ERROR\<rparr>)"
proof -
  have h: "lastError ((newImpl allocAlways)\<lparr>lastError := DECODE_ERROR\<rparr>) \<noteq> SUCCESS"
    by simp
  show ?thesis
    using h nextFrame_blocked_by_error [OF h, of 100 "[True, False, True]"]
    by (simp add: numeral_3_eq_3)
qed

subsection \<open>Canvas bounds\<close>

text \<open>
  A header is 13 bytes that start with a GIF signature. If its little-endian width
  exceeds the configured maximum width, or its height the maximum height, then
  \<^verbatim>\<open>load\<close> with any reader that delivers the header fails with \<^verbatim>\<open>FILE_TOO_WIDE\<close>,
  and so does \<^verbatim>\<open>loadFromMemory\<close> on any buffer that starts with the header, as long
  as no reader is registered and the copy of the input was allocated.
\<close>

lemma load_too_wide:
  assumes sig: "take 6 header = GIF89a \<or> take 6 header = GIF87a"
      and len: "length header = 13"
      and big: "le16 (header ! 6) (header ! 7) > ESP32_ANIMATEDGIF_MAX_WIDTH
                \<or> le16 (header ! 8) (header ! 9) > ESP32_ANIMATEDGIF_MAX_HEIGHT"
  shows "(reader s = None \<and> length (header @ rest) < 2 ^ 32
            \<and> allocOk s (allocCount s) (length (header @ rest))
          \<longrightarrow> (\<exists>s'. loadFromMemory fuel (Some (header @ rest)) s = Inr (FILE_TOO_WIDE, s')
                    \<and> lastError s' = FILE_TOO_WIDE
                    \<and> frameBuffer s' = None \<and> previousFrame s' = None))
       \<and> (rd 13 0 = Some header
          \<longrightarrow> (\<exists>s'. load (Some rd) s = Inr (FILE_TOO_WIDE, s')
                    \<and> lastError s' = FILE_TOO_WIDE
                    \<and> frameBuffer s' = None \<and> previousFrame s' = None))"
proof (intro conjI impI)
  assume a: "reader s = None \<and> length (header @ rest) < 2 ^ 32
            \<and> allocOk s (allocCount s) (length (header @ rest))"
  let ?s1 = "(cleanup s)\<lparr>allocCount := Suc (allocCount s), data := Some (header @ rest),
              dataLength := word_of_nat (length (header @ rest)), dataPosition := 0\<rparr>"
  have ne: "header @ rest \<noteq> []" using len by auto
  have rd: "readData ?s1 13 0 = Inr (Some header)"
    using a len readData_memory [of ?s1 "header @ rest" 13] by simp
  have "loadFromMemory fuel (Some (header @ rest)) s = parseHeader fuel ?s1"
    using a ne by (simp add: loadFromMemory_parses)
  then have "loadFromMemory fuel (Some (header @ rest)) s =
           Inr (FILE_TOO_WIDE, ?s1\<lparr>canvasWidth := le16 (header ! 6) (header ! 7),
                                  canvasHeight := le16 (header ! 8) (header ! 9),
                                  lastError := FILE_TOO_WIDE\<rparr>)"
    using parseHeader_too_wide [OF rd sig big] by simp
  then show "\<exists>s'. loadFromMemory fuel (Some (header @ rest)) s = Inr (FILE_TOO_WIDE, s')
                    \<and> lastError s' = FILE_TOO_WIDE
                    \<and> frameBuffer s' = None \<and> previousFrame s' = None"
    by simp
next
  assume r: "rd 13 0 = Some header"
  have "load (Some rd) s =
      Inr (FILE_TOO_WIDE,
           (cleanup s)\<lparr>reader := Some rd, canvasWidth := le16 (header ! 6) (header ! 7),
                        canvasHeight := le16 (header ! 8) (header ! 9),
                        lastError := FILE_TOO_WIDE\<rparr>)"
    using r sig big by (auto simp add: load_def Let_def readData_reader)
  then show "\<exists>s'. load (Some rd) s = Inr (FILE_TOO_WIDE, s')
                    \<and> lastError s' = FILE_TOO_WIDE
                    \<and> frameBuffer s' = None \<and> previousFrame s' = None"
    by simp
qed

lemma load_too_wide_example:
  "(take 6 wideHeader = GIF89a \<or> take 6 wideHeader = GIF87a)
   \<and> length wideHeader = 13
   \<and> (le16 (wideHeader ! 6) (wideHeader ! 7) > ESP32_ANIMATEDGIF_MAX_WIDTH
      \<or> le16 (wideHeader ! 8) (wideHeader ! 9) > ESP32_ANIMATEDGIF_MAX_HEIGHT)
   \<and> reader (newImpl allocAlways) = None
   \<and> length (wideHeader @ [0x3B]) < 2 ^ 32
   \<and> allocOk (newImpl allocAlways) (allocCount (newImpl allocAlways)) (length (wideHeader @ [0x3B]))
   \<and> bufferReader wideHeader 13 0 = Some wideHeader
   \<and> (\<exists>s'. loadFromMemory 100 (Some (wideHeader @ [0x3B])) (newImpl allocAlways)
               = Inr (FILE_TOO_WIDE, s')
            \<and> lastError s' = FILE_TOO_WIDE \<and> frameBuffer s' = None \<and> previousFrame s' = None)
   \<and> (\<exists>s'. load (Some (bufferReader wideHeader)) (newImpl allocAlways) = Inr (FILE_TOO_WIDE, s')
            \<and> lastError s' = FILE_TOO_WIDE \<and> frameBuffer s' = None \<and> previousFrame s' = None)"
proof -
  have h1: "take 6 wideHeader = GIF89a \<or> take 6 wideHeader = GIF87a"
    by (simp add: wideHeader_def GIF89a_def)
  have h2: "length wideHeader = 13"
    by (simp add: wideHeader_def GIF89a_def)
  have h3: "le16 (wideHeader ! 6) (wideHeader ! 7) > ESP32_ANIMATEDGIF_MAX_WIDTH
            \<or> le16 (wideHeader ! 8) (wideHeader ! 9) > ESP32_ANIMATEDGIF_MAX_HEIGHT"
    by code_simp
  have h4: "reader (newImpl allocAlways) = None"
    by (simp add: newImpl_def resetState_def resetFrameState_def)
  have h5: "length (wideHeader @ [0x3B]) < 2 ^ 32"
    by (simp add: h2)
  have h6: "allocOk (newImpl allocAlways) (allocCount (newImpl allocAlways))
              (length (wideHeader @ [0x3B]))"
    by (simp add: newImpl_def resetState_def resetFrameState_def allocAlways_def)
  have h7: "bufferReader wideHeader 13 0 = Some wideHeader"
    by (simp add: bufferReader_def h2)
  show ?thesis
    using h1 h2 h3 h4 h5 h6 h7
      load_too_wide [OF h1 h2 h3, of "newImpl allocAlways" "[0x3B]" 100 "bufferReader wideHeader"]
    by blast
qed

text \<open>
  C9 (the code departs from it). \<^verbatim>\<open>cleanup\<close> does not clear \<^verbatim>\<open>_reader\<close>, and
  \<^verbatim>\<open>readData\<close> asks a registered reader before it looks at \<^verbatim>\<open>_data\<close>. After a
  \<^verbatim>\<open>load\<close> through a reader over \<open>gifGlobalOnly\<close>, \<^verbatim>\<open>loadFromMemory\<close> on a buffer
  whose header declares a width of 801 parses the reader's header instead of the
  buffer's: it returns success with a canvas 1 wide. On a new decoder the same buffer
  is rejected with \<^verbatim>\<open>FILE_TOO_WIDE\<close>.
\<close>

theorem loadFromMemory_reads_stale_reader:
  "le16 (wideHeader ! 6) (wideHeader ! 7) = 801
   \<and> map_sum id fst (loadedByReader gifGlobalOnly) = Inr SUCCESS
   \<and> map_sum id fst (loadedAfterReader (wideHeader @ [0x3B])) = Inr SUCCESS
   \<and> map_sum id (canvasWidth \<circ> snd) (loadedAfterReader (wideHeader @ [0x3B])) = Inr 1
   \<and> map_sum id (data \<circ> snd) (loadedAfterReader (wideHeader @ [0x3B]))
       = Inr (Some (wideHeader @ [0x3B]))
   \<and> map_sum id fst (loadFromMemory 100 (Some (wideHeader @ [0x3B])) (newImpl allocAlways))
       = Inr FILE_TOO_WIDE"
  by code_simp

subsection \<open>Signature check\<close>







subsection \<open>The end of the animation\<close>





subsection \<open>Frame production and the frame delay in general\<close>

text \<open>
  The sub-block loop of \<^verbatim>\<open>decodeFrame\<close> moves the cursor and changes nothing else, so
  what a successful \<^verbatim>\<open>decodeFrame\<close> leaves is \<^verbatim>\<open>fillTestPattern\<close> on the state it
  was given, up to the cursor: no byte of the compressed data reaches the canvas.
\<close>

lemma decodeFrame_skip_cursor_only:
  "decodeFrame_skip n s = Inr (True, s') \<Longrightarrow> \<exists>p. s' = s\<lparr>dataPosition := p\<rparr>"
proof (induction n arbitrary: s)
  case 0
  then show ?case by simp
next
  case (Suc n)
  from Suc.prems obtain block where
    rd: "readData s 1 (dataPosition s) = Inr (Some block)"
    by (auto split: sum.splits option.splits)
  let ?s1 = "s\<lparr>dataPosition := dataPosition s + 1 + ucast (block ! 0)\<rparr>"
  show ?case
  proof (cases "block ! 0 > 0")
    case True
    with Suc.prems rd have "decodeFrame_skip n ?s1 = Inr (True, s')"
      by (simp add: Let_def)
    from Suc.IH [OF this] obtain p where "s' = ?s1\<lparr>dataPosition := p\<rparr>" ..
    then have "s' = s\<lparr>dataPosition := p\<rparr>" by simp
    then show ?thesis ..
  next
    case False
    with Suc.prems rd have "s' = ?s1" by (simp add: Let_def)
    then show ?thesis by blast
  qed
qed

lemma decodeFrame_is_test_pattern:
  assumes "decodeFrame fuel s = Inr (True, s')"
  shows "\<exists>p. fillTestPattern (s\<lparr>dataPosition := p\<rparr>) = Inr s'"
proof -
  from assms obtain s1 where
    sk: "decodeFrame_skip fuel (s\<lparr>dataPosition := dataPosition s + 1\<rparr>) = Inr (True, s1)"
    and fp: "fillTestPattern s1 = Inr s'"
    by (auto simp add: decodeFrame_def split: sum.splits option.splits bool.splits)
  from decodeFrame_skip_cursor_only [OF sk] obtain p
    where "s1 = s\<lparr>dataPosition := dataPosition s + 1\<rparr>\<lparr>dataPosition := p\<rparr>" ..
  then have "s1 = s\<lparr>dataPosition := p\<rparr>" by simp
  with fp show ?thesis by blast
qed

text \<open>
  With a color table and a frame buffer present and a frame that is not empty,
  \<^verbatim>\<open>fillTestPattern\<close> divides by zero whenever \<^verbatim>\<open>_localColorTableSize\<close> is 0.
\<close>

lemma fillTestPattern_zero_divisor:
  assumes "localColorTableSize s = 0"
      and "localColorTable s \<noteq> None \<or> globalColorTable s \<noteq> None"
      and "frameBuffer s \<noteq> None"
      and "frameWidth s \<noteq> 0" "frameHeight s \<noteq> 0"
  shows "fillTestPattern s = Inl DivisionByZero"
proof -
  have w: "0 < unat (frameWidth s)" and h: "0 < unat (frameHeight s)"
    using assms(4,5) by (simp_all add: unat_gt_0)
  have "[0 ..< unat (frameWidth s)] = 0 # [1 ..< unat (frameWidth s)]"
    and "[0 ..< unat (frameHeight s)] = 0 # [1 ..< unat (frameHeight s)]"
    using w h by (simp_all add: upt_conv_Cons)
  then show ?thesis
    using assms(1,2,3)
    by (auto simp add: fillTestPattern_def testPatternPixel_def split: option.splits)
qed

text \<open>
  Up to 6553 centiseconds the frame delay is ten times the encoded delay, and at least
  20 ms; the 16-bit field holds the product only in this range.
\<close>

lemma gce_word_unat:
  "unat (push_bit 8 (ucast (hi::byte)) OR ucast (lo::byte) :: u32) = unat hi * 256 + unat lo"
proof -
  have "(push_bit 8 (ucast hi) OR ucast lo :: u32) = push_bit 8 (ucast hi) + ucast lo"
    by (rule sym, rule disjunctive_add) (auto simp add: bit_simps dest: bit_imp_le_length)
  moreover have "unat (push_bit 8 (ucast hi :: u32)) = unat hi * 256"
    using byte_bound [of hi]
    by (simp add: push_bit_eq_mult unat_word_ariths unat_ucast_byte)
  ultimately show ?thesis
    using byte_bound [of hi] byte_bound [of lo]
    by (simp add: unat_word_ariths unat_ucast_byte)
qed

lemma gceFrameDelay_small:
  assumes "unat hi * 256 + unat lo < 6554"
  shows "unat (gceFrameDelay lo hi) = max 20 (10 * (unat hi * 256 + unat lo))"
proof -
  let ?cs = "unat hi * 256 + unat lo"
  let ?w = "(push_bit 8 (ucast hi) OR ucast lo :: u32) * 10"
  have "unat ?w = ?cs * 10"
    using assms by (simp add: unat_word_ariths gce_word_unat)
  then have d: "unat (ucast ?w :: u16) = ?cs * 10"
    using assms by (simp add: unsigned_ucast_eq take_bit_nat_eq_self)
  show ?thesis
    unfolding gceFrameDelay_def Let_def
    using d by (auto simp add: word_less_nat_alt max_def)
qed

text \<open>
  In GIF89a a Graphic Control Extension is the bytes \<open>21 F9 04\<close>, the packed flags, the
  delay, the transparent index and \<open>00\<close>. \<open>gifGce 0x04 0x00 0x0A\<close> is such an
  extension with a delay of 10 centiseconds and no disposal: \<^verbatim>\<open>parseFrame\<close> takes the
  block size 4 for the packed flags and the two bytes after it for the delay.
\<close>

lemma parseFrame_on_gif89a_extension:
  "map_sum id fst (firstFrameParsed (gifGce 0x04 0x00 0x0A)) = Inr True
   \<and> map_sum id (disposalMethod \<circ> snd) (firstFrameParsed (gifGce 0x04 0x00 0x0A)) = Inr 1
   \<and> map_sum id (frameDelay \<circ> snd) (firstFrameParsed (gifGce 0x04 0x00 0x0A)) = Inr 25600"
  by code_simp

subsection \<open>What the decoder does on the sample streams\<close>

text \<open>
  C1 (the code departs from it). \<^verbatim>\<open>decodeFrame\<close> steps over the compressed sub-blocks
  and fills the frame with the pattern \<open>(x + y) mod _localColorTableSize\<close>. The two
  streams \<open>gifLocal 0x4C\<close> and \<open>gifLocal 0x54\<close> differ only in their compressed
  data, which encode the index 1 and the index 2 for the single pixel; after
  \<^verbatim>\<open>nextFrame\<close> both canvases hold the same pixel, the one of index 0 (the word at
  offset 0 of the local table: red \<open>0xA2\<close>, green \<open>0xA1\<close>, blue \<open>0xA0\<close>).
\<close>

theorem nextFrame_ignores_compressed_data:
  "map_sum id fst (firstFrame (gifLocal 0x4C)) = Inr SUCCESS
   \<and> map_sum id (frameBuffer \<circ> snd) (firstFrame (gifLocal 0x4C)) = Inr (Some [0xA2, 0xA1, 0xA0])
   \<and> map_sum id fst (firstFrame (gifLocal 0x54)) = Inr SUCCESS
   \<and> map_sum id (frameBuffer \<circ> snd) (firstFrame (gifLocal 0x54)) = Inr (Some [0xA2, 0xA1, 0xA0])"
  by code_simp

text \<open>
  C3 (the code departs from it). \<^verbatim>\<open>nextFrame\<close> applies the disposal method of the
  frame it has just drawn, in the same call. In \<open>gifGce 0x08 10 0\<close> the first frame
  asks for RestoreBackground: \<^verbatim>\<open>decodeFrame\<close> draws its pixel, and when \<^verbatim>\<open>nextFrame\<close>
  returns the pixel is already the background color (the word at index 1 of the global
  table). In \<open>gifGce 0x0C 10 0\<close> it asks for RestorePrevious, and the canvas is back to
  the zeroed snapshot.
\<close>

theorem nextFrame_disposes_frame_just_drawn:
  "map_sum id (disposalMethod \<circ> snd) (firstFrameDrawn (gifGce 0x08 10 0)) = Inr 2
   \<and> map_sum id (frameBuffer \<circ> snd) (firstFrameDrawn (gifGce 0x08 10 0))
       = Inr (Some [0xA2, 0xA1, 0xA0])
   \<and> map_sum id fst (firstFrame (gifGce 0x08 10 0)) = Inr SUCCESS
   \<and> map_sum id (frameBuffer \<circ> snd) (firstFrame (gifGce 0x08 10 0))
       = Inr (Some [0x30, 0x22, 0x21])
   \<and> map_sum id (disposalMethod \<circ> snd) (firstFrameDrawn (gifGce 0x0C 10 0)) = Inr 3
   \<and> map_sum id (frameBuffer \<circ> snd) (firstFrameDrawn (gifGce 0x0C 10 0))
       = Inr (Some [0xA2, 0xA1, 0xA0])
   \<and> map_sum id fst (firstFrame (gifGce 0x0C 10 0)) = Inr SUCCESS
   \<and> map_sum id (frameBuffer \<circ> snd) (firstFrame (gifGce 0x0C 10 0)) = Inr (Some [0, 0, 0])"
  by code_simp

text \<open>
  C4 (the code departs from it). For \<open>gifGlobalOnly\<close>, whose frame has no local color
  table, \<^verbatim>\<open>parseFrame\<close> succeeds with the global table present, the frame buffer
  allocated, a 1 by 1 frame and \<^verbatim>\<open>_localColorTableSize\<close> still 0; the first pixel of
  \<^verbatim>\<open>fillTestPattern\<close> then divides by zero.
\<close>

theorem fillTestPattern_divides_by_zero:
  "map_sum id fst (loaded gifGlobalOnly) = Inr SUCCESS
   \<and> map_sum id fst (firstFrameParsed gifGlobalOnly) = Inr True
   \<and> map_sum id (localColorTableSize \<circ> snd) (firstFrameParsed gifGlobalOnly) = Inr 0
   \<and> map_sum id (localColorTable \<circ> snd) (firstFrameParsed gifGlobalOnly) = Inr None
   \<and> map_sum id (globalColorTable \<circ> snd) (firstFrameParsed gifGlobalOnly)
       = Inr (Some [0x10, 0x11, 0x12, 0x20, 0x21, 0x22, 0x30, 0x31, 0x32, 0x40, 0x41, 0x42])
   \<and> map_sum id (frameBuffer \<circ> snd) (firstFrameParsed gifGlobalOnly) = Inr (Some [0, 0, 0])
   \<and> map_sum id (frameWidth \<circ> snd) (firstFrameParsed gifGlobalOnly) = Inr 1
   \<and> map_sum id (frameHeight \<circ> snd) (firstFrameParsed gifGlobalOnly) = Inr 1
   \<and> map_sum id fst (firstFrame gifGlobalOnly) = Inl DivisionByZero"
  by code_simp

text \<open>
  C6 (the code departs from it). \<^verbatim>\<open>load\<close> through a pull-reader succeeds without the
  pre-scan: for \<open>gifGlobalOnly\<close> and for \<open>gifGce 0 10 0\<close>, each with one Image
  Descriptor, it reports 0 frames and a duration of 0, where \<^verbatim>\<open>loadFromMemory\<close> on the
  same bytes reports 1 frame, and 100 ms for the second stream.
\<close>

theorem load_by_reader_counts_no_frames:
  "map_sum id fst (loadedByReader gifGlobalOnly) = Inr SUCCESS
   \<and> map_sum id (getFrameCount \<circ> snd) (loadedByReader gifGlobalOnly) = Inr 0
   \<and> map_sum id (getFrameCount \<circ> snd) (loaded gifGlobalOnly) = Inr 1
   \<and> map_sum id fst (loadedByReader (gifGce 0 10 0)) = Inr SUCCESS
   \<and> map_sum id (getFrameCount \<circ> snd) (loadedByReader (gifGce 0 10 0)) = Inr 0
   \<and> map_sum id (totalDuration \<circ> snd) (loadedByReader (gifGce 0 10 0)) = Inr 0
   \<and> map_sum id (getFrameCount \<circ> snd) (loaded (gifGce 0 10 0)) = Inr 1
   \<and> map_sum id (totalDuration \<circ> snd) (loaded (gifGce 0 10 0)) = Inr 100"
  by code_simp

text \<open>
  C8 (the code departs from it). The product of the delay and 10 is narrowed to the
  16-bit \<^verbatim>\<open>_frameDelay\<close> before the clamp. For the encoded delay \<open>0x199A\<close> = 6554
  centiseconds the product 65540 wraps to 4, and the frame delay becomes 20 ms; the
  pre-scan of the same stream adds the full 65540 ms to the total duration.
\<close>

theorem frameDelay_wraps:
  "gceFrameDelay 0x9A 0x19 = 20
   \<and> map_sum id fst (firstFrameParsed (gifGce 0 0x9A 0x19)) = Inr True
   \<and> map_sum id (frameDelay \<circ> snd) (firstFrameParsed (gifGce 0 0x9A 0x19)) = Inr 20
   \<and> map_sum id (totalDuration \<circ> snd) (loaded (gifGce 0 0x9A 0x19)) = Inr 65540"
  by code_simp

end
